theory Spec2Isabelle
  imports Complex_Main
begin

section \<open>The fhwise media player adapter\<close>

text \<open>
  A shallow embedding of \<^verbatim>\<open>homeassistant/components/fhwise/media_player.py\<close>.
  The entity object is a record, every coroutine is a function from the entity to a result
  and the entity it leaves behind, and an exception is the \<open>Inl\<close> branch of the result.
  Awaiting a job on the executor is the call itself: a handler runs one remote call at a
  time and continues with its result.
\<close>

subsection \<open>Python values\<close>

text \<open>
  The device client hands back Python numbers: success flags, an integer state code and a
  numeric volume level. \<open>bool\<close> is a numeric type of Python, so the three numeric types
  are kept apart where the code can tell them apart and read through \<open>num\<close> where it
  cannot. A Python float is read as the real number it denotes; dividing and multiplying by
  \<open>0.0625\<close>, a power of two, is exact on floats.
\<close>

datatype pyval = PyBool bool | PyInt int | PyFloat real

fun num :: "pyval \<Rightarrow> real" where
  "num (PyBool b) = (if b then 1 else 0)"
| "num (PyInt i) = real_of_int i"
| "num (PyFloat x) = x"

fun as_int :: "pyval \<Rightarrow> int" where
  "as_int (PyBool b) = (if b then 1 else 0)"
| "as_int (PyInt i) = i"
| "as_int (PyFloat x) = 0"

fun is_float :: "pyval \<Rightarrow> bool" where
  "is_float (PyFloat x) = True"
| "is_float v = False"

text \<open>Truth value testing, as \<^verbatim>\<open>if result:\<close> does it: a number is false when it is zero.\<close>

fun truthy :: "pyval \<Rightarrow> bool" where
  "truthy (PyBool b) = b"
| "truthy (PyInt i) = (i \<noteq> 0)"
| "truthy (PyFloat x) = (x \<noteq> 0)"

text \<open>\<^verbatim>\<open>a == b\<close> on numbers compares the values: \<^verbatim>\<open>True == 1\<close> and \<^verbatim>\<open>1.0 == 1\<close> hold.\<close>

definition py_eq :: "pyval \<Rightarrow> pyval \<Rightarrow> bool" where
  "py_eq a b = (num a = num b)"

definition py_lt :: "pyval \<Rightarrow> pyval \<Rightarrow> bool" where
  "py_lt a b = (num a < num b)"

text \<open>Arithmetic stays in the integers unless an operand is a float.\<close>

definition py_add :: "pyval \<Rightarrow> pyval \<Rightarrow> pyval" where
  "py_add a b = (if is_float a \<or> is_float b then PyFloat (num a + num b)
                 else PyInt (as_int a + as_int b))"

definition py_sub :: "pyval \<Rightarrow> pyval \<Rightarrow> pyval" where
  "py_sub a b = (if is_float a \<or> is_float b then PyFloat (num a - num b)
                 else PyInt (as_int a - as_int b))"

text \<open>
  \<^verbatim>\<open>min(a, b)\<close> and \<^verbatim>\<open>max(a, b)\<close> return one of their arguments, the first one on
  a tie.
\<close>

definition py_min :: "pyval \<Rightarrow> pyval \<Rightarrow> pyval" where
  "py_min a b = (if py_lt b a then b else a)"

definition py_max :: "pyval \<Rightarrow> pyval \<Rightarrow> pyval" where
  "py_max a b = (if py_lt a b then b else a)"

text \<open>\<^verbatim>\<open>int(x)\<close> on a float truncates towards zero.\<close>

definition py_int :: "real \<Rightarrow> int" where
  "py_int x = (if 0 \<le> x then \<lfloor>x\<rfloor> else \<lceil>x\<rceil>)"

subsection \<open>Constants, exceptions and the device client\<close>

datatype media_state = STATE_OFF | STATE_PAUSED | STATE_PLAYING

definition DEFAULT_NAME :: string where
  "DEFAULT_NAME = ''fh wise media player''"

definition DEFAULT_PORT :: int where
  "DEFAULT_PORT = 8080"

definition ATTR_MODEL :: string where
  "ATTR_MODEL = ''model''"

definition SOUND_MODE_LIST :: "string list" where
  "SOUND_MODE_LIST = [''Dummy Music'', ''Dummy Movie'']"

definition DEFAULT_SOUND_MODE :: string where
  "DEFAULT_SOUND_MODE = ''Dummy Music''"

text \<open>
  \<open>Exception\<close> stands for whatever the client library raises below \<^verbatim>\<open>Exception\<close>;
  \<open>NameError\<close> is what a reference to the name \<^verbatim>\<open>traceback\<close>, which the module never
  imports, would raise.
\<close>

datatype exn = Exception string | NameError string | PlatformNotReady

text \<open>
  The methods of the client object that the entity calls. The client lives outside the
  module, so it is a parameter: a call, made in a device state \<open>'d\<close>, raises or returns a
  value and leaves a new device state.
\<close>

datatype call =
    Send_play_pause
  | Set_volume_toggle_mute
  | Set_volume_level pyval
  | Get_play_status
  | Get_volume_level

type_synonym 'd client = "call \<Rightarrow> 'd \<Rightarrow> (exn + pyval) \<times> 'd"

subsection \<open>The entity\<close>

text \<open>
  The fields of \<^verbatim>\<open>AbstractFhwisePlayer.__init__\<close> and of its subclass
  \<^verbatim>\<open>FhwiseMusicPlayer\<close>, \<open>self_x\<close> for \<^verbatim>\<open>self._x\<close>. \<open>self_state\<close> is the attribute
  \<^verbatim>\<open>self._state\<close>, which \<^verbatim>\<open>__init__\<close> does not create: it is \<open>None\<close> until a handler
  assigns it. \<open>remote_calls\<close> is not a field of the object: it records, in order, the
  calls made on the client, so that "no remote call is issued" can be stated.
\<close>

record 'd fhwise_player =
  self_player :: 'd
  self_host :: string
  self_port :: int
  self_model :: string
  self_name :: string
  self_unique_id :: string
  self_state_attrs :: "(string \<times> string) list"
  self_player_state :: media_state
  self_volume_level :: pyval
  self_volume_muted :: bool
  self_shuffle :: bool
  self_sound_mode_list :: "string list"
  self_sound_mode :: string
  self_device_class :: "string option"
  self_available :: bool
  self_skip_update :: bool
  self_cur_track :: nat
  self_state :: "media_state option"
  remote_calls :: "call list"

definition AbstractFhwisePlayer ::
  "'d \<Rightarrow> string \<Rightarrow> int \<Rightarrow> string \<Rightarrow> string \<Rightarrow> string option \<Rightarrow> 'd fhwise_player" where
  "AbstractFhwisePlayer player host port model name device_class =
     \<lparr> self_player = player,
       self_host = host,
       self_port = port,
       self_model = model,
       self_name = name,
       self_unique_id = model @ ''-'' @ host,
       self_state_attrs = [(ATTR_MODEL, model)],
       self_player_state = STATE_PLAYING,
       self_volume_level = PyFloat 1.0,
       self_volume_muted = False,
       self_shuffle = False,
       self_sound_mode_list = SOUND_MODE_LIST,
       self_sound_mode = DEFAULT_SOUND_MODE,
       self_device_class = device_class,
       self_available = False,
       self_skip_update = False,
       self_cur_track = 0,
       self_state = None,
       remote_calls = [] \<rparr>"

definition FhwiseMusicPlayer ::
  "'d \<Rightarrow> string \<Rightarrow> int \<Rightarrow> string \<Rightarrow> string \<Rightarrow> 'd fhwise_player" where
  "FhwiseMusicPlayer player host port model name =
     (AbstractFhwisePlayer player host port model name None) \<lparr> self_cur_track := 0 \<rparr>"

text \<open>The properties the host reads.\<close>

definition available :: "'d fhwise_player \<Rightarrow> bool" where
  "available s = self_available s"

definition state :: "'d fhwise_player \<Rightarrow> media_state" where
  "state s = self_player_state s"

definition volume_level :: "'d fhwise_player \<Rightarrow> real" where
  "volume_level s = num (self_volume_level s) * 0.0625"

definition is_volume_muted :: "'d fhwise_player \<Rightarrow> bool" where
  "is_volume_muted s = self_volume_muted s"

subsection \<open>Remote calls\<close>

type_synonym ('a, 'd) job = "(exn + 'a) \<times> 'd fhwise_player"

text \<open>One call on \<^verbatim>\<open>self._player\<close>, run on the executor and awaited.\<close>

definition async_add_executor_job :: "'d client \<Rightarrow> call \<Rightarrow> 'd fhwise_player \<Rightarrow> (pyval, 'd) job" where
  "async_add_executor_job cl c s =
     (case cl c (self_player s) of
        (r, d) \<Rightarrow> (r, s\<lparr> self_player := d, remote_calls := remote_calls s @ [c] \<rparr>))"

text \<open>
  \<^verbatim>\<open>_try_command\<close>: the result of the call, or, when the call raises, \<^verbatim>\<open>False\<close>
  with the entity marked unavailable. The message \<open>mask_error\<close> only goes to the log.
\<close>

definition try_command ::
  "string \<Rightarrow> 'd client \<Rightarrow> call \<Rightarrow> 'd fhwise_player \<Rightarrow> (pyval, 'd) job" where
  "try_command mask_error cl c s =
     (case async_add_executor_job cl c s of
        (Inr result, s1) \<Rightarrow> (Inr result, s1)
      | (Inl e, s1) \<Rightarrow> (Inr (PyBool False), s1\<lparr> self_available := False \<rparr>))"

subsection \<open>Command handlers\<close>

text \<open>
  The guards compare by identity (\<^verbatim>\<open>is\<close>, \<^verbatim>\<open>is not\<close>). \<^verbatim>\<open>self._player_state\<close> only
  ever holds one of the state constants of the host and \<^verbatim>\<open>mute\<close> is a \<^verbatim>\<open>bool\<close>, so
  identity is equality of the values here. The argument of \<^verbatim>\<open>set_volume_level\<close> is the
  float the host passes, read as a real number.
\<close>

definition async_turn_on :: "'d client \<Rightarrow> 'd fhwise_player \<Rightarrow> (unit, 'd) job" where
  "async_turn_on cl s =
     (if self_player_state s \<noteq> STATE_PLAYING then
        (case try_command ''Turning the player on failed.'' cl Send_play_pause s of
           (Inl e, s1) \<Rightarrow> (Inl e, s1)
         | (Inr result, s1) \<Rightarrow>
             (if truthy result
              then (Inr (), s1\<lparr> self_state := Some STATE_PLAYING, self_skip_update := True \<rparr>)
              else (Inr (), s1)))
      else (Inr (), s))"

definition async_turn_off :: "'d client \<Rightarrow> 'd fhwise_player \<Rightarrow> (unit, 'd) job" where
  "async_turn_off cl s =
     (if self_player_state s = STATE_PLAYING then
        (case try_command ''Turning the player off failed.'' cl Send_play_pause s of
           (Inl e, s1) \<Rightarrow> (Inl e, s1)
         | (Inr result, s1) \<Rightarrow>
             (if truthy result
              then (Inr (), s1\<lparr> self_state := Some STATE_OFF, self_skip_update := True \<rparr>)
              else (Inr (), s1)))
      else (Inr (), s))"

definition mute_volume :: "'d client \<Rightarrow> bool \<Rightarrow> 'd fhwise_player \<Rightarrow> (unit, 'd) job" where
  "mute_volume cl mute s =
     (if self_volume_muted s \<noteq> mute then
        (case try_command ''Mute the player failed.'' cl Set_volume_toggle_mute s of
           (Inl e, s1) \<Rightarrow> (Inl e, s1)
         | (Inr result, s1) \<Rightarrow>
             (if truthy result
              then (Inr (), s1\<lparr> self_volume_muted := mute, self_skip_update := True \<rparr>)
              else (Inr (), s1)))
      else (Inr (), s))"

definition volume_up :: "'d client \<Rightarrow> 'd fhwise_player \<Rightarrow> (unit, 'd) job" where
  "volume_up cl s =
     (let vol = py_min (PyInt 15) (py_add (self_volume_level s) (PyInt 1)) in
      case try_command ''Set volume level failed.'' cl (Set_volume_level vol) s of
        (Inl e, s1) \<Rightarrow> (Inl e, s1)
      | (Inr result, s1) \<Rightarrow>
          (if truthy result
           then (Inr (), s1\<lparr> self_volume_level := vol, self_skip_update := True \<rparr>)
           else (Inr (), s1)))"

definition volume_down :: "'d client \<Rightarrow> 'd fhwise_player \<Rightarrow> (unit, 'd) job" where
  "volume_down cl s =
     (let vol = py_max (PyInt 0) (py_sub (self_volume_level s) (PyInt 1)) in
      case try_command ''Set volume level failed.'' cl (Set_volume_level vol) s of
        (Inl e, s1) \<Rightarrow> (Inl e, s1)
      | (Inr result, s1) \<Rightarrow>
          (if truthy result
           then (Inr (), s1\<lparr> self_volume_level := vol, self_skip_update := True \<rparr>)
           else (Inr (), s1)))"

definition set_volume_level :: "'d client \<Rightarrow> real \<Rightarrow> 'd fhwise_player \<Rightarrow> (unit, 'd) job" where
  "set_volume_level cl volume s =
     (let vol = PyInt (py_int (volume / 0.0625)) in
      case try_command ''Set volume level failed.'' cl (Set_volume_level vol) s of
        (Inl e, s1) \<Rightarrow> (Inl e, s1)
      | (Inr result, s1) \<Rightarrow>
          (if truthy result
           then (Inr (), s1\<lparr> self_volume_level := vol, self_skip_update := True \<rparr>)
           else (Inr (), s1)))"

definition media_play :: "'d client \<Rightarrow> 'd fhwise_player \<Rightarrow> (unit, 'd) job" where
  "media_play cl s =
     (if self_player_state s \<noteq> STATE_PLAYING then
        (case try_command ''Turning the player on failed.'' cl Send_play_pause s of
           (Inl e, s1) \<Rightarrow> (Inl e, s1)
         | (Inr result, s1) \<Rightarrow>
             (if truthy result
              then (Inr (), s1\<lparr> self_state := Some STATE_PLAYING, self_skip_update := True \<rparr>)
              else (Inr (), s1)))
      else (Inr (), s))"

definition media_pause :: "'d client \<Rightarrow> 'd fhwise_player \<Rightarrow> (unit, 'd) job" where
  "media_pause cl s =
     (if self_player_state s = STATE_PLAYING then
        (case try_command ''Turning the player off failed.'' cl Send_play_pause s of
           (Inl e, s1) \<Rightarrow> (Inl e, s1)
         | (Inr result, s1) \<Rightarrow>
             (if truthy result
              then (Inr (), s1\<lparr> self_state := Some STATE_OFF, self_skip_update := True \<rparr>)
              else (Inr (), s1)))
      else (Inr (), s))"

subsection \<open>Polling\<close>

text \<open>
  The body of the \<^verbatim>\<open>try\<close> block of \<^verbatim>\<open>async_update\<close>: two reads through
  \<^verbatim>\<open>_try_command\<close>, each followed by the assignments that use its result.
\<close>

definition fetch_state :: "'d client \<Rightarrow> 'd fhwise_player \<Rightarrow> (unit, 'd) job" where
  "fetch_state cl s =
     (case try_command ''Get play status failed.'' cl Get_play_status s of
        (Inl e, s1) \<Rightarrow> (Inl e, s1)
      | (Inr play_state, s1) \<Rightarrow>
          (let s2 = s1\<lparr> self_player_state :=
                         (if py_eq play_state (PyInt 1) then STATE_PLAYING else STATE_PAUSED) \<rparr>
           in case try_command ''Get volume level failed'' cl Get_volume_level s2 of
                (Inl e, s3) \<Rightarrow> (Inl e, s3)
              | (Inr vol_level, s3) \<Rightarrow>
                  (Inr (), s3\<lparr> self_volume_level := vol_level,
                               self_volume_muted := (if truthy vol_level then True else False),
                               self_available := True \<rparr>)))"

text \<open>
  \<^verbatim>\<open>async_update\<close>. The \<^verbatim>\<open>except\<close> clause marks the entity unavailable and then refers
  to \<^verbatim>\<open>traceback\<close>, which is not imported.
\<close>

definition async_update :: "'d client \<Rightarrow> 'd fhwise_player \<Rightarrow> (unit, 'd) job" where
  "async_update cl s =
     (if self_skip_update s then (Inr (), s\<lparr> self_skip_update := False \<rparr>)
      else
        (case fetch_state cl s of
           (Inr u, s1) \<Rightarrow> (Inr u, s1)
         | (Inl e, s1) \<Rightarrow> (Inl (NameError ''traceback''), s1\<lparr> self_available := False \<rparr>)))"

subsection \<open>Dispatch of host commands\<close>

text \<open>The host calls one handler per service; \<open>handle\<close> names the handlers by a command.\<close>

datatype command =
    Turn_on
  | Turn_off
  | Mute_volume bool
  | Volume_up
  | Volume_down
  | Set_volume real
  | Media_play
  | Media_pause

fun handle :: "'d client \<Rightarrow> command \<Rightarrow> 'd fhwise_player \<Rightarrow> (unit, 'd) job" where
  "handle cl Turn_on s = async_turn_on cl s"
| "handle cl Turn_off s = async_turn_off cl s"
| "handle cl (Mute_volume mute) s = mute_volume cl mute s"
| "handle cl Volume_up s = volume_up cl s"
| "handle cl Volume_down s = volume_down cl s"
| "handle cl (Set_volume volume) s = set_volume_level cl volume s"
| "handle cl Media_play s = media_play cl s"
| "handle cl Media_pause s = media_pause cl s"

text \<open>
  The remote call a handler makes on an entity: the method and argument it passes to
  \<^verbatim>\<open>_try_command\<close> when its guard lets it through, \<open>None\<close> when the guard stops it.
  The volume handlers have no guard.
\<close>

fun command_call :: "command \<Rightarrow> 'd fhwise_player \<Rightarrow> call option" where
  "command_call Turn_on s =
     (if self_player_state s \<noteq> STATE_PLAYING then Some Send_play_pause else None)"
| "command_call Turn_off s =
     (if self_player_state s = STATE_PLAYING then Some Send_play_pause else None)"
| "command_call (Mute_volume mute) s =
     (if self_volume_muted s \<noteq> mute then Some Set_volume_toggle_mute else None)"
| "command_call Volume_up s =
     Some (Set_volume_level (py_min (PyInt 15) (py_add (self_volume_level s) (PyInt 1))))"
| "command_call Volume_down s =
     Some (Set_volume_level (py_max (PyInt 0) (py_sub (self_volume_level s) (PyInt 1))))"
| "command_call (Set_volume volume) s =
     Some (Set_volume_level (PyInt (py_int (volume / 0.0625))))"
| "command_call Media_play s =
     (if self_player_state s \<noteq> STATE_PLAYING then Some Send_play_pause else None)"
| "command_call Media_pause s =
     (if self_player_state s = STATE_PLAYING then Some Send_play_pause else None)"

subsection \<open>Platform setup\<close>

text \<open>
  The class \<^verbatim>\<open>fhwise.FhwisePlayer\<close> as the setup uses it: the constructor and three
  methods, each of which may raise.
\<close>

record 'd fhwise_library =
  FhwisePlayer :: "string \<Rightarrow> int \<Rightarrow> exn + 'd"
  connect :: "'d \<Rightarrow> exn + 'd"
  send_heartbeat :: "'d \<Rightarrow> exn + string \<times> 'd"
  disconnect :: "'d \<Rightarrow> exn + 'd"

record config =
  CONF_HOST :: string
  CONF_NAME :: string
  CONF_PORT :: int

text \<open>The \<^verbatim>\<open>try\<close> block of the setup: the handshake, giving the model and the client.\<close>

definition handshake :: "'d fhwise_library \<Rightarrow> string \<Rightarrow> int \<Rightarrow> exn + string \<times> 'd" where
  "handshake lib host port =
     (case FhwisePlayer lib host port of
        Inl e \<Rightarrow> Inl e
      | Inr fhPlayer \<Rightarrow>
          (case connect lib fhPlayer of
             Inl e \<Rightarrow> Inl e
           | Inr d1 \<Rightarrow>
               (case send_heartbeat lib d1 of
                  Inl e \<Rightarrow> Inl e
                | Inr (model, d2) \<Rightarrow>
                    (case disconnect lib d2 of
                       Inl e \<Rightarrow> Inl e
                     | Inr d3 \<Rightarrow> Inr (model, d3)))))"

text \<open>
  \<^verbatim>\<open>async_setup_platform\<close>: the result is the list of entities passed to
  \<^verbatim>\<open>async_add_entities\<close>, or the exception raised instead.
\<close>

definition async_setup_platform ::
  "'d fhwise_library \<Rightarrow> config \<Rightarrow> exn + 'd fhwise_player list" where
  "async_setup_platform lib cfg =
     (let host = CONF_HOST cfg; name = CONF_NAME cfg; port = CONF_PORT cfg in
      case handshake lib host port of
        Inl e \<Rightarrow> Inl PlatformNotReady
      | Inr (model, fhPlayer) \<Rightarrow> Inr [FhwiseMusicPlayer fhPlayer host port model name])"

subsection \<open>Clients and libraries for concrete runs\<close>

text \<open>
  A client that answers from a script: the device state is the list of the answers still
  to give, one per call, and an exhausted script raises.
\<close>

definition scripted :: "(exn + pyval) list client" where
  "scripted c d = (case d of [] \<Rightarrow> (Inl (Exception ''script exhausted''), [])
                   | r # rs \<Rightarrow> (r, rs))"

definition player0 :: "(exn + pyval) list \<Rightarrow> (exn + pyval) list fhwise_player" where
  "player0 script = FhwiseMusicPlayer script ''10.0.0.2'' 8080 ''FH-1'' DEFAULT_NAME"

text \<open>
  An entity that has polled once and found the device paused at volume 5; \<open>script\<close> holds
  the answers to the calls that follow.
\<close>

definition paused_player :: "(exn + pyval) list \<Rightarrow> (exn + pyval) list fhwise_player" where
  "paused_player script =
     snd (async_update scripted (player0 ([Inr (PyInt 0), Inr (PyInt 5)] @ script)))"

text \<open>The same after a poll that found the device playing at volume 5.\<close>

definition playing_player :: "(exn + pyval) list \<Rightarrow> (exn + pyval) list fhwise_player" where
  "playing_player script =
     snd (async_update scripted (player0 ([Inr (PyInt 1), Inr (PyInt 5)] @ script)))"

text \<open>
  A library whose handshake fails at step \<open>fail_at\<close> (0 the constructor, 1 \<^verbatim>\<open>connect\<close>,
  2 \<^verbatim>\<open>send_heartbeat\<close>, 3 \<^verbatim>\<open>disconnect\<close>) and succeeds otherwise; the device state
  counts the calls made.
\<close>

definition staged_library :: "nat \<Rightarrow> nat fhwise_library" where
  "staged_library fail_at =
     \<lparr> FhwisePlayer = (\<lambda>host port. if fail_at = 0 then Inl (Exception ''refused'') else Inr 0),
       connect = (\<lambda>d. if fail_at = 1 then Inl (Exception ''refused'') else Inr (Suc d)),
       send_heartbeat =
         (\<lambda>d. if fail_at = 2 then Inl (Exception ''refused'') else Inr (''FH-1'', Suc d)),
       disconnect = (\<lambda>d. if fail_at = 3 then Inl (Exception ''refused'') else Inr (Suc d)) \<rparr>"

definition config0 :: config where
  "config0 = \<lparr> CONF_HOST = ''10.0.0.2'', CONF_NAME = DEFAULT_NAME, CONF_PORT = DEFAULT_PORT \<rparr>"

section \<open>Properties\<close>

lemmas handler_defs = async_turn_on_def async_turn_off_def mute_volume_def volume_up_def
  volume_down_def set_volume_level_def media_play_def media_pause_def

lemmas cmd_defs = try_command_def async_add_executor_job_def

lemmas py_defs = py_eq_def py_lt_def py_add_def py_sub_def py_min_def py_max_def py_int_def

lemmas run_defs = async_update_def fetch_state_def scripted_def player0_def paused_player_def
  playing_player_def
  FhwiseMusicPlayer_def AbstractFhwisePlayer_def

subsection \<open>What a remote call leaves behind\<close>

lemma try_command_returns: "\<exists>v. fst (try_command m cl c s) = Inr v"
  by (simp add: cmd_defs split: prod.splits sum.splits)

lemma handle_returns: "fst (handle cl cmd s) = Inr ()"
  by (cases cmd) (simp_all add: handler_defs cmd_defs Let_def split: prod.splits sum.splits)

lemma handle_collapse: "handle cl cmd s = (Inr (), snd (handle cl cmd s))"
  using handle_returns [of cl cmd s] by (simp add: prod_eq_iff)









lemma try_command_raised:
  assumes "isl (fst (cl c (self_player s)))"
  shows "try_command m cl c s
     = (Inr (PyBool False),
        s\<lparr> self_player := snd (cl c (self_player s)),
           remote_calls := remote_calls s @ [c],
           self_available := False \<rparr>)"
proof (cases "cl c (self_player s)")
  case (Pair a b)
  with assms obtain e where "a = Inl e"
    by (cases a) simp_all
  with Pair show ?thesis
    by (simp add: cmd_defs)
qed

lemma handle_raised:
  assumes "command_call cmd s = Some c" and "fst (cl c (self_player s)) = Inl e"
  shows "snd (handle cl cmd s)
    = s\<lparr> self_player := snd (cl c (self_player s)),
         remote_calls := remote_calls s @ [c],
         self_available := False \<rparr>"
proof -
  have "isl (fst (cl c (self_player s)))"
    using assms(2) by simp
  with assms(1) show ?thesis
    by (cases cmd) (simp_all add: handler_defs try_command_raised Let_def split: if_splits)
qed

lemma truthy_num: "truthy v = (num v \<noteq> 0)"
  by (cases v) simp_all

lemma paused_player_fields:
  "self_player_state (paused_player script) = STATE_PAUSED"
  "self_volume_level (paused_player script) = PyInt 5"
  "self_volume_muted (paused_player script)"
  "self_available (paused_player script)"
  "\<not> self_skip_update (paused_player script)"
  "self_state (paused_player script) = None"
  "self_player (paused_player script) = script"
  "remote_calls (paused_player script) = [Get_play_status, Get_volume_level]"
  by (simp_all add: run_defs cmd_defs py_defs Let_def)

lemma playing_player_fields:
  "self_player_state (playing_player script) = STATE_PLAYING"
  "self_volume_level (playing_player script) = PyInt 5"
  "self_volume_muted (playing_player script)"
  "self_available (playing_player script)"
  "\<not> self_skip_update (playing_player script)"
  "self_state (playing_player script) = None"
  "self_player (playing_player script) = script"
  "remote_calls (playing_player script) = [Get_play_status, Get_volume_level]"
  by (simp_all add: run_defs cmd_defs py_defs Let_def)

lemma player0_fields:
  "self_player_state (player0 script) = STATE_PLAYING"
  "self_volume_level (player0 script) = PyFloat 1"
  "\<not> self_volume_muted (player0 script)"
  "\<not> self_available (player0 script)"
  "\<not> self_skip_update (player0 script)"
  "self_state (player0 script) = None"
  "self_player (player0 script) = script"
  "remote_calls (player0 script) = []"
  by (simp_all add: run_defs)

subsection \<open>The play-state handlers and the \<open>state\<close> property\<close>

text \<open>
  C1. A successful \<^verbatim>\<open>async_turn_on\<close> should leave the \<open>state\<close> property at
  \<open>STATE_PLAYING\<close> and set the skip-poll flag. On an entity that polled the device as
  paused, with \<^verbatim>\<open>send_play_pause\<close> answering \<^verbatim>\<open>True\<close>, the handler makes the call and
  sets the flag, but assigns \<^verbatim>\<open>self._state\<close>, while the property reads
  \<^verbatim>\<open>self._player_state\<close>: the reported state is still \<open>STATE_PAUSED\<close>.
\<close>

theorem turn_on_success_state_not_updated:
  "state (paused_player [Inr (PyBool True)]) = STATE_PAUSED
   \<and> scripted Send_play_pause (self_player (paused_player [Inr (PyBool True)]))
       = (Inr (PyBool True), [])
   \<and> remote_calls (snd (async_turn_on scripted (paused_player [Inr (PyBool True)])))
       = remote_calls (paused_player [Inr (PyBool True)]) @ [Send_play_pause]
   \<and> self_skip_update (snd (async_turn_on scripted (paused_player [Inr (PyBool True)])))
   \<and> self_state (snd (async_turn_on scripted (paused_player [Inr (PyBool True)])))
       = Some STATE_PLAYING
   \<and> state (snd (async_turn_on scripted (paused_player [Inr (PyBool True)]))) = STATE_PAUSED"
  by (simp add: state_def async_turn_on_def cmd_defs paused_player_fields scripted_def)

text \<open>
  C10. No command handler assigns \<^verbatim>\<open>self._player_state\<close>: whatever the command, the
  client's answer and the guard, the field and with it the \<open>state\<close> property are the same
  before and after the call.
\<close>

theorem handlers_keep_player_state:
  "self_player_state (snd (handle cl cmd s)) = self_player_state s
   \<and> state (snd (handle cl cmd s)) = state s"
  by (cases cmd)
     (simp_all add: state_def handler_defs cmd_defs Let_def split: prod.splits sum.splits)

subsection \<open>Polling\<close>

text \<open>
  C2. A poll whose remote read raises should end with the entity unavailable and the cached
  play, volume and mute state as they were. On a playing, available entity at volume 1 whose
  \<^verbatim>\<open>get_play_status\<close> raises and whose \<^verbatim>\<open>get_volume_level\<close> answers 7, the poll
  carries on with \<^verbatim>\<open>False\<close> for the play status: the entity ends available, paused, at
  volume 7 and muted.
\<close>

theorem poll_read_raises_still_available:
  "\<not> self_skip_update ((player0 [Inl (Exception ''timed out''), Inr (PyInt 7)])
        \<lparr> self_available := True \<rparr>)
   \<and> fst (scripted Get_play_status [Inl (Exception ''timed out''), Inr (PyInt 7)])
       = Inl (Exception ''timed out'')
   \<and> state (player0 [Inl (Exception ''timed out''), Inr (PyInt 7)]) = STATE_PLAYING
   \<and> self_volume_level (player0 [Inl (Exception ''timed out''), Inr (PyInt 7)]) = PyFloat 1
   \<and> \<not> is_volume_muted (player0 [Inl (Exception ''timed out''), Inr (PyInt 7)])
   \<and> fst (async_update scripted ((player0 [Inl (Exception ''timed out''), Inr (PyInt 7)])
        \<lparr> self_available := True \<rparr>)) = Inr ()
   \<and> available (snd (async_update scripted
        ((player0 [Inl (Exception ''timed out''), Inr (PyInt 7)]) \<lparr> self_available := True \<rparr>)))
   \<and> state (snd (async_update scripted
        ((player0 [Inl (Exception ''timed out''), Inr (PyInt 7)]) \<lparr> self_available := True \<rparr>)))
       = STATE_PAUSED
   \<and> self_volume_level (snd (async_update scripted
        ((player0 [Inl (Exception ''timed out''), Inr (PyInt 7)]) \<lparr> self_available := True \<rparr>)))
       = PyInt 7
   \<and> is_volume_muted (snd (async_update scripted
        ((player0 [Inl (Exception ''timed out''), Inr (PyInt 7)]) \<lparr> self_available := True \<rparr>)))"
  by (simp add: run_defs cmd_defs py_defs Let_def state_def available_def is_volume_muted_def)

text \<open>
  C8. A poll that is not skipped and whose two reads both return makes exactly those two
  calls, marks the entity available, stores the value of \<^verbatim>\<open>get_volume_level\<close> as the
  volume level and sets the mute flag to whether that value is nonzero.
\<close>

theorem poll_success_updates:
  assumes "\<not> self_skip_update s"
    and "cl Get_play_status (self_player s) = (Inr p, d1)"
    and "cl Get_volume_level d1 = (Inr v, d2)"
  shows "fst (async_update cl s) = Inr ()
    \<and> available (snd (async_update cl s))
    \<and> self_volume_level (snd (async_update cl s)) = v
    \<and> is_volume_muted (snd (async_update cl s)) = (num v \<noteq> 0)
    \<and> remote_calls (snd (async_update cl s))
        = remote_calls s @ [Get_play_status, Get_volume_level]"
  using assms
  by (simp add: async_update_def fetch_state_def cmd_defs Let_def available_def
      is_volume_muted_def truthy_num)

theorem poll_success_updates_witness:
  "\<not> self_skip_update (player0 [Inr (PyInt 1), Inr (PyInt 0)])
   \<and> \<not> available (player0 [Inr (PyInt 1), Inr (PyInt 0)])
   \<and> available (snd (async_update scripted (player0 [Inr (PyInt 1), Inr (PyInt 0)])))
   \<and> self_volume_level (snd (async_update scripted (player0 [Inr (PyInt 1), Inr (PyInt 0)])))
       = PyInt 0
   \<and> \<not> is_volume_muted (snd (async_update scripted (player0 [Inr (PyInt 1), Inr (PyInt 0)])))
   \<and> self_volume_level (snd (async_update scripted (player0 [Inr (PyInt 1), Inr (PyInt 9)])))
       = PyInt 9
   \<and> is_volume_muted (snd (async_update scripted (player0 [Inr (PyInt 1), Inr (PyInt 9)])))"
proof -
  have skip: "\<not> self_skip_update (player0 script)" for script
    by (simp add: player0_fields)
  have status: "scripted Get_play_status (self_player (player0 [Inr (PyInt 1), Inr (PyInt k)]))
      = (Inr (PyInt 1), [Inr (PyInt k)])" for k
    by (simp add: player0_fields scripted_def)
  have level: "scripted Get_volume_level [Inr (PyInt k)] = (Inr (PyInt k), [])" for k
    by (simp add: scripted_def)
  show ?thesis
    using poll_success_updates [OF skip status level, of 0]
      poll_success_updates [OF skip status level, of 9]
    by (simp add: player0_fields available_def)
qed

subsection \<open>The volume handlers\<close>

text \<open>
  C3. The volume handlers should keep the stored level within 0..15. \<^verbatim>\<open>volume_up\<close> caps
  its target at 15, but \<^verbatim>\<open>set_volume_level\<close> does not: with the argument 1.0, the top of
  its documented range, it sends and stores \<^verbatim>\<open>int(1.0 / 0.0625)\<close>, which is 16. The
  reported \<open>volume_level\<close> is then 1, and a \<^verbatim>\<open>volume_up\<close> that follows sends 15.
\<close>

theorem set_volume_level_full_stores_16:
  "self_volume_level (player0 [Inr (PyBool True), Inr (PyBool True)]) = PyFloat 1
   \<and> remote_calls (snd (set_volume_level scripted 1
        (player0 [Inr (PyBool True), Inr (PyBool True)])))
       = [Set_volume_level (PyInt 16)]
   \<and> self_volume_level (snd (set_volume_level scripted 1
        (player0 [Inr (PyBool True), Inr (PyBool True)])))
       = PyInt 16
   \<and> volume_level (snd (set_volume_level scripted 1
        (player0 [Inr (PyBool True), Inr (PyBool True)])))
       = 1
   \<and> self_volume_level (snd (volume_up scripted (snd (set_volume_level scripted 1
        (player0 [Inr (PyBool True), Inr (PyBool True)])))))
       = PyInt 15"
  by (simp add: run_defs handler_defs cmd_defs py_defs Let_def volume_level_def)

subsection \<open>Skipping the poll after a command\<close>



subsection \<open>Failed commands\<close>

text \<open>
  C5. Whenever the guard of a handler lets it through and the client raises on the call, the
  handler makes that call and returns normally; the cached play state (the \<open>state\<close>
  property and the attribute the handlers assign), the volume level and the mute flag are
  what they were before, and the entity is unavailable.
\<close>

theorem command_raises_keeps_state:
  assumes "command_call cmd s = Some c"
    and "fst (cl c (self_player s)) = Inl e"
    and "handle cl cmd s = (r, s1)"
  shows "remote_calls s1 = remote_calls s @ [c]
    \<and> r = Inr ()
    \<and> state s1 = state s
    \<and> self_state s1 = self_state s
    \<and> self_volume_level s1 = self_volume_level s
    \<and> volume_level s1 = volume_level s
    \<and> is_volume_muted s1 = is_volume_muted s
    \<and> \<not> available s1"
proof -
  have out: "s1 = snd (handle cl cmd s)" and res: "r = fst (handle cl cmd s)"
    using assms(3) by simp_all
  have after: "s1 = s\<lparr> self_player := snd (cl c (self_player s)),
      remote_calls := remote_calls s @ [c], self_available := False \<rparr>"
    unfolding out using assms(1,2) by (rule handle_raised)
  have "r = Inr ()"
    unfolding res by (rule handle_returns)
  then show ?thesis
    by (simp add: after state_def volume_level_def is_volume_muted_def available_def)
qed

theorem command_raises_keeps_state_witness:
  "command_call Turn_off (playing_player [Inl (Exception ''timed out'')]) = Some Send_play_pause
   \<and> fst (scripted Send_play_pause [Inl (Exception ''timed out'')])
       = Inl (Exception ''timed out'')
   \<and> available (playing_player [Inl (Exception ''timed out'')])
   \<and> remote_calls (snd (handle scripted Turn_off (playing_player [Inl (Exception ''timed out'')])))
       = [Get_play_status, Get_volume_level, Send_play_pause]
   \<and> state (snd (handle scripted Turn_off (playing_player [Inl (Exception ''timed out'')])))
       = STATE_PLAYING
   \<and> self_volume_level
        (snd (handle scripted Turn_off (playing_player [Inl (Exception ''timed out'')])))
       = PyInt 5
   \<and> is_volume_muted
        (snd (handle scripted Turn_off (playing_player [Inl (Exception ''timed out'')])))
   \<and> \<not> available
        (snd (handle scripted Turn_off (playing_player [Inl (Exception ''timed out'')])))
   \<and> \<not> available
        (snd (handle scripted Volume_down (paused_player [Inl (Exception ''timed out'')])))
   \<and> self_volume_level
        (snd (handle scripted Volume_down (paused_player [Inl (Exception ''timed out'')])))
       = PyInt 5"
proof -
  let ?s = "playing_player [Inl (Exception ''timed out'')]"
  let ?t = "paused_player [Inl (Exception ''timed out'')]"
  have ran: "handle scripted cmd s = (fst (handle scripted cmd s), snd (handle scripted cmd s))"
    for cmd and s :: "(exn + pyval) list fhwise_player"
    by simp
  have guard: "command_call Turn_off ?s = Some Send_play_pause"
    by (simp add: playing_player_fields)
  have raised: "fst (scripted Send_play_pause (self_player ?s)) = Inl (Exception ''timed out'')"
    by (simp add: playing_player_fields scripted_def)
  have before: "available ?s"
    by (simp add: available_def playing_player_fields)
  have after: "remote_calls (snd (handle scripted Turn_off ?s))
        = [Get_play_status, Get_volume_level, Send_play_pause]
      \<and> state (snd (handle scripted Turn_off ?s)) = STATE_PLAYING
      \<and> self_volume_level (snd (handle scripted Turn_off ?s)) = PyInt 5
      \<and> is_volume_muted (snd (handle scripted Turn_off ?s))
      \<and> \<not> available (snd (handle scripted Turn_off ?s))"
    using command_raises_keeps_state [OF guard raised ran]
    by (simp add: playing_player_fields state_def is_volume_muted_def)
  have guard': "command_call Volume_down ?t = Some (Set_volume_level (PyInt 4))"
    by (simp add: paused_player_fields py_defs)
  have raised': "fst (scripted (Set_volume_level (PyInt 4)) (self_player ?t))
      = Inl (Exception ''timed out'')"
    by (simp add: paused_player_fields scripted_def)
  have after': "\<not> available (snd (handle scripted Volume_down ?t))
      \<and> self_volume_level (snd (handle scripted Volume_down ?t)) = PyInt 5"
    using command_raises_keeps_state [OF guard' raised' ran]
    by (simp add: paused_player_fields)
  have raised0: "fst (scripted Send_play_pause [Inl (Exception ''timed out'')])
      = Inl (Exception ''timed out'')"
    by (simp add: scripted_def)
  show ?thesis
    using guard raised0 before after after' by blast
qed

text \<open>
  C6, as stated: a remote call that returns a false value without raising should mark the
  entity unavailable. On an available, paused entity whose \<^verbatim>\<open>send_play_pause\<close> answers
  \<^verbatim>\<open>False\<close>, \<^verbatim>\<open>async_turn_on\<close> makes the call and the entity is still available.
\<close>

theorem falsy_result_stays_available:
  "available (paused_player [Inr (PyBool False)])
   \<and> scripted Send_play_pause (self_player (paused_player [Inr (PyBool False)]))
       = (Inr (PyBool False), [])
   \<and> \<not> truthy (PyBool False)
   \<and> remote_calls (snd (async_turn_on scripted (paused_player [Inr (PyBool False)])))
       = remote_calls (paused_player [Inr (PyBool False)]) @ [Send_play_pause]
   \<and> available (snd (async_turn_on scripted (paused_player [Inr (PyBool False)])))"
  by (simp add: available_def async_turn_on_def cmd_defs paused_player_fields scripted_def)

text \<open>
  C6, amended. When a handler has made its remote call and the call returned a false value
  without raising, the handler returns normally and the entity is as before in every field,
  the availability flag included; only the client has moved on and the call is on record.
  When the call raised, the handler returns normally as well.
\<close>

theorem falsy_result_changes_nothing:
  assumes "handle cl cmd s = (r, s1)"
    and "remote_calls s1 = remote_calls s @ [c]"
    and "cl c (self_player s) = (out, d)"
  shows "(out = Inr v \<and> \<not> truthy v \<longrightarrow>
            r = Inr () \<and> s1 = s\<lparr> self_player := d, remote_calls := remote_calls s @ [c] \<rparr>)
       \<and> (out = Inl e \<longrightarrow> r = Inr ())"
  using assms
  by (cases cmd)
     (auto simp add: handler_defs cmd_defs Let_def split: prod.splits sum.splits if_splits)

theorem falsy_result_changes_nothing_witness:
  "\<not> truthy (PyInt 0)
   \<and> handle scripted (Mute_volume False) (paused_player [Inr (PyInt 0)])
       = (Inr (), (paused_player [Inr (PyInt 0)])
            \<lparr> self_player := [], remote_calls := remote_calls (paused_player [Inr (PyInt 0)])
                 @ [Set_volume_toggle_mute] \<rparr>)
   \<and> available (snd (handle scripted (Mute_volume False) (paused_player [Inr (PyInt 0)])))
   \<and> fst (handle scripted Media_play (paused_player [Inl (Exception ''timed out'')])) = Inr ()"
proof -
  let ?s = "paused_player [Inr (PyInt 0)]"
  let ?t = "paused_player [Inl (Exception ''timed out'')]"
  have ran: "handle scripted cmd s = (fst (handle scripted cmd s), snd (handle scripted cmd s))"
    for cmd and s :: "(exn + pyval) list fhwise_player"
    by simp
  have issued: "remote_calls (snd (handle scripted (Mute_volume False) ?s))
      = remote_calls ?s @ [Set_volume_toggle_mute]"
    by (simp add: mute_volume_def cmd_defs paused_player_fields scripted_def)
  have answer: "scripted Set_volume_toggle_mute (self_player ?s) = (Inr (PyInt 0), [])"
    by (simp add: paused_player_fields scripted_def)
  have issued': "remote_calls (snd (handle scripted Media_play ?t))
      = remote_calls ?t @ [Send_play_pause]"
    by (simp add: media_play_def cmd_defs paused_player_fields scripted_def)
  have answer': "scripted Send_play_pause (self_player ?t) = (Inl (Exception ''timed out''), [])"
    by (simp add: paused_player_fields scripted_def)
  have falsy: "\<not> truthy (PyInt 0)"
    by simp
  have quiet: "fst (handle scripted (Mute_volume False) ?s) = Inr ()
      \<and> snd (handle scripted (Mute_volume False) ?s)
          = ?s\<lparr> self_player := [], remote_calls := remote_calls ?s @ [Set_volume_toggle_mute] \<rparr>"
    using falsy_result_changes_nothing [OF ran issued answer, of "PyInt 0"] falsy by blast
  then have whole: "handle scripted (Mute_volume False) ?s
      = (Inr (), ?s\<lparr> self_player := [],
           remote_calls := remote_calls ?s @ [Set_volume_toggle_mute] \<rparr>)"
    by (simp add: prod_eq_iff)
  have still: "available (snd (handle scripted (Mute_volume False) ?s))"
    using quiet by (simp add: available_def paused_player_fields)
  have caught: "fst (handle scripted Media_play ?t) = Inr ()"
    using falsy_result_changes_nothing [OF ran issued' answer', of _ "Exception ''timed out''"]
    by blast
  show ?thesis
    using falsy whole still caught by blast
qed

subsection \<open>Redundant commands\<close>

text \<open>
  C7. On a playing entity \<^verbatim>\<open>async_turn_on\<close> and \<^verbatim>\<open>media_play\<close> return the entity as it
  is; on an entity that is not playing \<^verbatim>\<open>async_turn_off\<close> and \<^verbatim>\<open>media_pause\<close> do;
  and \<^verbatim>\<open>mute_volume\<close> does when the mute flag already has the requested value. The
  record of remote calls is part of the entity, so no call is made.
\<close>

theorem redundant_command_is_noop:
  "(self_player_state s = STATE_PLAYING \<longrightarrow>
      async_turn_on cl s = (Inr (), s) \<and> media_play cl s = (Inr (), s))
   \<and> (self_player_state s \<noteq> STATE_PLAYING \<longrightarrow>
      async_turn_off cl s = (Inr (), s) \<and> media_pause cl s = (Inr (), s))
   \<and> (self_volume_muted s = mute \<longrightarrow> mute_volume cl mute s = (Inr (), s))"
  by (simp add: handler_defs)

theorem redundant_command_is_noop_witness:
  "self_player_state (player0 [Inr (PyBool True)]) = STATE_PLAYING
   \<and> async_turn_on scripted (player0 [Inr (PyBool True)]) = (Inr (), player0 [Inr (PyBool True)])
   \<and> media_play scripted (player0 [Inr (PyBool True)]) = (Inr (), player0 [Inr (PyBool True)])
   \<and> mute_volume scripted False (player0 [Inr (PyBool True)])
       = (Inr (), player0 [Inr (PyBool True)])
   \<and> self_player_state (paused_player [Inr (PyBool True)]) \<noteq> STATE_PLAYING
   \<and> async_turn_off scripted (paused_player [Inr (PyBool True)])
       = (Inr (), paused_player [Inr (PyBool True)])
   \<and> media_pause scripted (paused_player [Inr (PyBool True)])
       = (Inr (), paused_player [Inr (PyBool True)])
   \<and> remote_calls (snd (media_pause scripted (paused_player [Inr (PyBool True)])))
       = remote_calls (paused_player [Inr (PyBool True)])"
proof -
  have playing: "self_player_state (player0 [Inr (PyBool True)]) = STATE_PLAYING"
    by (simp add: player0_fields)
  have unmuted: "self_volume_muted (player0 [Inr (PyBool True)]) = False"
    by (simp add: player0_fields)
  have paused: "self_player_state (paused_player [Inr (PyBool True)]) \<noteq> STATE_PLAYING"
    by (simp add: paused_player_fields)
  show ?thesis
    using redundant_command_is_noop [of "player0 [Inr (PyBool True)]" scripted False]
      redundant_command_is_noop [of "paused_player [Inr (PyBool True)]" scripted True]
      playing unmuted paused
    by simp
qed

subsection \<open>Platform setup\<close>

text \<open>
  C9. If constructing the client, \<^verbatim>\<open>connect\<close>, \<^verbatim>\<open>send_heartbeat\<close> or
  \<^verbatim>\<open>disconnect\<close> raises, \<^verbatim>\<open>async_setup_platform\<close> raises \<open>PlatformNotReady\<close> and
  adds no entity; if all four return, it adds exactly one entity, the music player built on
  the client with the configured host, port and name and the model the heartbeat returned.
\<close>

theorem setup_not_ready_or_one_entity:
  "(FhwisePlayer lib (CONF_HOST cfg) (CONF_PORT cfg) = Inl e \<longrightarrow>
      async_setup_platform lib cfg = Inl PlatformNotReady)
   \<and> (FhwisePlayer lib (CONF_HOST cfg) (CONF_PORT cfg) = Inr dev_made
       \<and> connect lib dev_made = Inl e \<longrightarrow>
      async_setup_platform lib cfg = Inl PlatformNotReady)
   \<and> (FhwisePlayer lib (CONF_HOST cfg) (CONF_PORT cfg) = Inr dev_made
       \<and> connect lib dev_made = Inr dev_open
       \<and> send_heartbeat lib dev_open = Inl e \<longrightarrow>
      async_setup_platform lib cfg = Inl PlatformNotReady)
   \<and> (FhwisePlayer lib (CONF_HOST cfg) (CONF_PORT cfg) = Inr dev_made
       \<and> connect lib dev_made = Inr dev_open
       \<and> send_heartbeat lib dev_open = Inr (model, dev_greeted)
       \<and> disconnect lib dev_greeted = Inl e \<longrightarrow>
      async_setup_platform lib cfg = Inl PlatformNotReady)
   \<and> (FhwisePlayer lib (CONF_HOST cfg) (CONF_PORT cfg) = Inr dev_made
       \<and> connect lib dev_made = Inr dev_open
       \<and> send_heartbeat lib dev_open = Inr (model, dev_greeted)
       \<and> disconnect lib dev_greeted = Inr dev_closed \<longrightarrow>
      async_setup_platform lib cfg
        = Inr [FhwiseMusicPlayer dev_closed (CONF_HOST cfg) (CONF_PORT cfg) model (CONF_NAME cfg)])"
  by (simp add: async_setup_platform_def handshake_def Let_def)

theorem setup_not_ready_or_one_entity_witness:
  "async_setup_platform (staged_library 0) config0 = Inl PlatformNotReady
   \<and> async_setup_platform (staged_library 1) config0 = Inl PlatformNotReady
   \<and> async_setup_platform (staged_library 2) config0 = Inl PlatformNotReady
   \<and> async_setup_platform (staged_library 3) config0 = Inl PlatformNotReady
   \<and> async_setup_platform (staged_library 4) config0
       = Inr [FhwiseMusicPlayer (Suc (Suc (Suc 0))) ''10.0.0.2'' 8080 ''FH-1'' DEFAULT_NAME]
   \<and> length (projr (async_setup_platform (staged_library 4) config0)) = 1"
proof -
  note w = setup_not_ready_or_one_entity
    [where cfg = config0 and e = "Exception ''refused''" and dev_made = 0 and dev_open = "Suc 0"
       and model = "''FH-1''" and dev_greeted = "Suc (Suc 0)" and dev_closed = "Suc (Suc (Suc 0))"]
  have at0: "async_setup_platform (staged_library 0) config0 = Inl PlatformNotReady"
    using w [where lib = "staged_library 0"] by (simp add: staged_library_def)
  have at1: "async_setup_platform (staged_library 1) config0 = Inl PlatformNotReady"
    using w [where lib = "staged_library 1"] by (simp add: staged_library_def)
  have at2: "async_setup_platform (staged_library 2) config0 = Inl PlatformNotReady"
    using w [where lib = "staged_library 2"] by (simp add: staged_library_def)
  have at3: "async_setup_platform (staged_library 3) config0 = Inl PlatformNotReady"
    using w [where lib = "staged_library 3"] by (simp add: staged_library_def)
  have at4: "async_setup_platform (staged_library 4) config0
      = Inr [FhwiseMusicPlayer (Suc (Suc (Suc 0))) ''10.0.0.2'' 8080 ''FH-1'' DEFAULT_NAME]"
    using w [where lib = "staged_library 4"]
    by (simp add: staged_library_def config0_def DEFAULT_PORT_def)
  show ?thesis
    using at0 at1 at2 at3 at4 by simp
qed

end
